theory Spec2Isabelle
  imports Main "HOL-Library.Word"
begin

section \<open>Control plane of the beacon process: follow, check and correct\<close>

text \<open>
  A shallow embedding of \<^verbatim>\<open>internal/core/drand_beacon_control.go\<close>. Go values are
  modelled as follows: \<^verbatim>\<open>uint64\<close> is a 64-bit word, \<^verbatim>\<open>int64\<close> is a 64-bit word
  read with signed comparison, an \<^verbatim>\<open>error\<close> is its message (\<^verbatim>\<open>nil\<close> is \<open>None\<close>), a
  pointer is an option (\<^verbatim>\<open>nil\<close> is \<open>None\<close>), a channel is either never made
  (\<^verbatim>\<open>nil\<close>), open or closed. The collaborators that live outside this file (the sync
  engine, the chain validator and corrector, the round store, the gateway) are
  inputs of the model: what each of them returns is given, every call made to
  them is recorded in an effect trace.
\<close>

subsection \<open>Go values\<close>

type_synonym u64 = "64 word"
type_synonym i64 = "64 word"
type_synonym go_error = string

text \<open>A function call either returns or panics; a blocked call does not come back.\<close>

datatype 'a go_result = Returned 'a | Panicked string | Blocked

text \<open>
  A channel of Go: the zero value of a channel variable is \<^verbatim>\<open>nil\<close>; \<^verbatim>\<open>make\<close>
  gives an open channel; \<^verbatim>\<open>close\<close> on an open channel closes it, and on a closed
  channel it panics.
\<close>

datatype chan = ChanNil | ChanOpen | ChanClosed

fun close_chan :: "chan \<Rightarrow> chan go_result" where
  "close_chan ChanOpen = Returned ChanClosed"
| "close_chan ChanClosed = Panicked ''close of closed channel''"
| "close_chan ChanNil = Panicked ''close of nil channel''"

subsection \<open>The progress callback (sendPlainProgressCallback)\<close>

record SyncProgress =
  Current :: u64
  Target :: u64

text \<open>
  What the closure returned by \<^verbatim>\<open>sendPlainProgressCallback\<close> captures and acts on:
  the stream (the messages handed to \<^verbatim>\<open>stream.Send\<close>, in order), the logger (the
  send errors logged) and the channel \<^verbatim>\<open>done\<close>.
\<close>

record cb_state =
  sent :: "SyncProgress list"
  send_errs :: "go_error list"
  doneCh :: chan

text \<open>\<^verbatim>\<open>done = make(chan struct{})\<close>: the state the callback starts in.\<close>

definition sendPlainProgressCallback :: cb_state where
  "sendPlainProgressCallback = \<lparr>sent = [], send_errs = [], doneCh = ChanOpen\<rparr>"

text \<open>
  One call \<^verbatim>\<open>cb(curr, targ)\<close>. \<open>S\<close> is the constant \<^verbatim>\<open>common.LogsToSkip\<close>, declared
  outside this file and taken as a parameter; \<open>send_err\<close> is what \<^verbatim>\<open>stream.Send\<close>
  returns for this call. The subtraction and the remainder are those of \<^verbatim>\<open>uint64\<close>.
\<close>

definition plainProgressCb ::
  "u64 \<Rightarrow> bool \<Rightarrow> go_error option \<Rightarrow> u64 \<Rightarrow> u64 \<Rightarrow> cb_state \<Rightarrow> unit go_result \<times> cb_state" where
  "plainProgressCb S keepFollowing send_err cur targ0 st =
    (let targ = (if cur > targ0 then cur else targ0) in
     if targ > S \<and> targ - cur > S \<and> cur mod S \<noteq> 0 then (Returned (), st)
     else
       let st1 = st\<lparr>sent := sent st @ [\<lparr>Current = cur, Target = targ\<rparr>]\<rparr>;
           st2 = (case send_err of
                    None \<Rightarrow> st1
                  | Some e \<Rightarrow> st1\<lparr>send_errs := send_errs st1 @ [e]\<rparr>)
       in if \<not> keepFollowing \<and> targ > 0 \<and> cur = targ then
            (case close_chan (doneCh st2) of
               Returned c \<Rightarrow> (Returned (), st2\<lparr>doneCh := c\<rparr>)
             | Panicked m \<Rightarrow> (Panicked m, st2)
             | Blocked \<Rightarrow> (Blocked, st2))
          else (Returned (), st2))"

text \<open>
  A sequence of calls of the same callback, each with the outcome of its send; a
  panic ends the sequence.
\<close>

fun run_cb ::
  "u64 \<Rightarrow> bool \<Rightarrow> (go_error option \<times> u64 \<times> u64) list \<Rightarrow> cb_state \<Rightarrow> unit go_result \<times> cb_state" where
  "run_cb S keepFollowing [] st = (Returned (), st)"
| "run_cb S keepFollowing ((e, cur, targ) # calls) st =
    (case plainProgressCb S keepFollowing e cur targ st of
       (Returned u, st') \<Rightarrow> run_cb S keepFollowing calls st'
     | (Panicked m, st') \<Rightarrow> (Panicked m, st')
     | (Blocked, st') \<Rightarrow> (Blocked, st'))"

subsection \<open>The group-transition predicate (validateGroupTransition)\<close>

text \<open>The fields of \<^verbatim>\<open>key.Group\<close> that the predicate reads.\<close>

record Group =
  GenesisTime :: i64
  Period :: i64
  ID :: string
  GenesisSeed :: "8 word list"
  TransitionTime :: i64

text \<open>
  Both groups are passed by pointer: a pointer is \<open>None\<close> (\<^verbatim>\<open>nil\<close>) or the address of a
  group in the heap, so that the model says what the call leaves in the heap.
\<close>

type_synonym group_heap = "nat \<Rightarrow> Group"

definition errNilGroup :: go_error where
  "errNilGroup =
     ''the new group file could not be transitioned to, as it was '' @ [CHR 0x60] @ ''nil'' @ [CHR 0x60]"

definition errGenesisTime :: go_error where
  "errGenesisTime = ''control: old and new group have different genesis time''"

definition errPeriod :: go_error where
  "errPeriod =
     ''control: old and new group have different period - unsupported feature at the moment''"

definition errID :: go_error where
  "errID = ''control: old and new group have different ID - unsupported feature at the moment''"

definition errGenesisSeed :: go_error where
  "errGenesisSeed = ''control: old and new group have different genesis seed''"

definition errTransitionTime :: go_error where
  "errTransitionTime = ''control: new group with transition time in the past''"

definition nilDeref :: string where
  "nilDeref = ''runtime error: invalid memory address or nil pointer dereference''"

text \<open>
  \<open>CompareBeaconIDs\<close> (\<^verbatim>\<open>common.CompareBeaconIDs\<close>) and \<open>GetGenesisSeed\<close> (the method of
  \<^verbatim>\<open>key.Group\<close>) are declared outside this file and are parameters; the method
  has a pointer receiver, so it returns the seed together with the group it leaves
  behind. \<open>now\<close> is \<^verbatim>\<open>bp.opts.clock.Now().Unix()\<close>; the comparison with it is the
  signed one of \<^verbatim>\<open>int64\<close>. Reading a field through a \<^verbatim>\<open>nil\<close> pointer panics.
\<close>

definition validateGroupTransition ::
  "(string \<Rightarrow> string \<Rightarrow> bool) \<Rightarrow> (Group \<Rightarrow> 8 word list \<times> Group) \<Rightarrow> i64 \<Rightarrow>
   nat option \<Rightarrow> nat option \<Rightarrow> group_heap \<Rightarrow> go_error option go_result \<times> group_heap" where
  "validateGroupTransition CompareBeaconIDs GetGenesisSeed now oldGroup newGroup h =
    (case oldGroup of
       None \<Rightarrow>
         (case newGroup of
            None \<Rightarrow> (Returned (Some errNilGroup), h)
          | Some pn \<Rightarrow> (Returned None, h))
     | Some po \<Rightarrow>
         (case newGroup of
            None \<Rightarrow> (Panicked nilDeref, h)
          | Some pn \<Rightarrow>
              if GenesisTime (h po) \<noteq> GenesisTime (h pn) then (Returned (Some errGenesisTime), h)
              else if Period (h po) \<noteq> Period (h pn) then (Returned (Some errPeriod), h)
              else if \<not> CompareBeaconIDs (ID (h po)) (ID (h pn)) then (Returned (Some errID), h)
              else
                let (seedOld, go) = GetGenesisSeed (h po);
                    h1 = h(po := go);
                    (seedNew, gn) = GetGenesisSeed (h1 pn);
                    h2 = h1(pn := gn)
                in if seedOld \<noteq> seedNew then (Returned (Some errGenesisSeed), h2)
                   else if TransitionTime (h2 pn) <s now then (Returned (Some errTransitionTime), h2)
                   else (Returned None, h2)))"

subsection \<open>Fetching the chain info (chainInfoFromPeers)\<close>

text \<open>
  The loop over the peers. \<open>ChainInfo\<close> is \<^verbatim>\<open>privGateway.ChainInfo\<close> (an error, or a
  packet) and \<open>InfoFromProto\<close> is \<^verbatim>\<open>public.InfoFromProto\<close>, which returns the Go pair
  of a pointer and an error; both live outside this file and are parameters. The
  loop state is the pair of variables \<^verbatim>\<open>info\<close> and \<^verbatim>\<open>err\<close> declared before the
  loop, and the peers called so far. Both assignments of the body write the outer
  variables. The read lock under which the function copies the gateway, the
  version and the beacon identifier is left out.
\<close>

fun chainInfoLoop ::
  "('p \<Rightarrow> go_error + 'c) \<Rightarrow> ('c \<Rightarrow> 'i option \<times> go_error option) \<Rightarrow> 'p list \<Rightarrow>
   'i option \<times> go_error option \<times> 'p list \<Rightarrow> 'i option \<times> go_error option \<times> 'p list" where
  "chainInfoLoop ChainInfo InfoFromProto [] s = s"
| "chainInfoLoop ChainInfo InfoFromProto (peer # peers) (info, err, called) =
    (case ChainInfo peer of
       Inl e \<Rightarrow> chainInfoLoop ChainInfo InfoFromProto peers (info, Some e, called @ [peer])
     | Inr ci \<Rightarrow>
         (case InfoFromProto ci of
            (info', err') \<Rightarrow>
              chainInfoLoop ChainInfo InfoFromProto peers (info', err', called @ [peer])))"

text \<open>What \<^verbatim>\<open>%w\<close> of \<^verbatim>\<open>fmt.Errorf\<close> prints for an error, and for \<^verbatim>\<open>nil\<close>.\<close>

fun fmt_w :: "go_error option \<Rightarrow> string" where
  "fmt_w None = ''%!w(<nil>)''"
| "fmt_w (Some e) = e"

definition errNoChainInfo :: "go_error option \<Rightarrow> go_error" where
  "errNoChainInfo err = ''unable to get chain info successfully. Last err: '' @ fmt_w err"

text \<open>The result, and the peers that were called, in the order of the calls.\<close>

definition chainInfoFromPeers ::
  "('p \<Rightarrow> go_error + 'c) \<Rightarrow> ('c \<Rightarrow> 'i option \<times> go_error option) \<Rightarrow> 'p list \<Rightarrow>
   (go_error + 'i) \<times> 'p list" where
  "chainInfoFromPeers ChainInfo InfoFromProto peers =
    (case chainInfoLoop ChainInfo InfoFromProto peers (None, None, []) of
       (None, err, called) \<Rightarrow> (Inl (errNoChainInfo err), called)
     | (Some info, err, called) \<Rightarrow> (Inr info, called))"

subsection \<open>The node, the sync guard and the effects of a call\<close>

text \<open>
  Everything a call does to the world outside it, in the order it does it: the lock
  of \<^verbatim>\<open>bp.state\<close>, contexts created (\<^verbatim>\<open>context.WithCancel\<close>, a context is named by a
  number) and cancelled, assignments to \<^verbatim>\<open>bp.syncerCancel\<close>, and the calls to the
  collaborators. Logging and tracing spans are left out.
\<close>

datatype effect =
    StateLock
  | StateUnlock
  | WithCancel nat
  | Cancel nat
  | StoreSyncerCancel "nat option"
  | ChainInfoCall string
  | CreateDBStore
  | StorePut
  | StoreClose
  | SchemeFromName
  | NewSchemeStore
  | NewCallbackStore
  | CbStoreClose
  | AddCallback
  | RemoveCallback
  | NewSyncManager
  | SyncerRun
  | SyncerStop
  | SyncCall nat
  | Sleep i64
  | SleepSecond
  | ValidateChain u64
  | StreamSend SyncProgress
  | CorrectChain "u64 list" "string list"

text \<open>
  The node: whether \<^verbatim>\<open>bp.beacon\<close> is set, the cancellation handle \<^verbatim>\<open>bp.syncerCancel\<close>
  (\<open>None\<close> is \<^verbatim>\<open>nil\<close>, \<open>Some c\<close> is the cancel function of context \<open>c\<close>), the number
  of contexts created so far, and the effects so far.
\<close>

record node =
  has_beacon :: bool
  syncerCancel :: "nat option"
  ctx_count :: nat
  trace :: "effect list"

definition emit :: "effect \<Rightarrow> node \<Rightarrow> node" where
  "emit e n = n\<lparr>trace := trace n @ [e]\<rparr>"

definition with_cancel :: "node \<Rightarrow> nat \<times> node" where
  "with_cancel n = (ctx_count n, emit (WithCancel (ctx_count n)) (n\<lparr>ctx_count := Suc (ctx_count n)\<rparr>))"

definition store_syncerCancel :: "nat option \<Rightarrow> node \<Rightarrow> node" where
  "store_syncerCancel v n = emit (StoreSyncerCancel v) (n\<lparr>syncerCancel := v\<rparr>)"

text \<open>
  The deferred closure of both operations: under the lock, call the stored handle
  if there is one, then clear it.
\<close>

definition release_guard :: "node \<Rightarrow> node" where
  "release_guard n =
    (let n1 = emit StateLock n;
         n2 = (case syncerCancel n1 of None \<Rightarrow> n1 | Some c \<Rightarrow> emit (Cancel c) n1);
         n3 = store_syncerCancel None n2
     in emit StateUnlock n3)"

text \<open>
  The \<^verbatim>\<open>defer\<close> statements of the two operations. A function keeps a stack of them,
  last deferred first, and runs the stack when it returns.
\<close>

datatype deferred = DReleaseGuard | DCbStoreClose | DRemoveCallback | DSyncerStop

fun run_deferred :: "deferred \<Rightarrow> node \<Rightarrow> node" where
  "run_deferred DReleaseGuard n = release_guard n"
| "run_deferred DCbStoreClose n = emit CbStoreClose n"
| "run_deferred DRemoveCallback n = emit RemoveCallback n"
| "run_deferred DSyncerStop n = emit SyncerStop n"

definition run_defers :: "deferred list \<Rightarrow> node \<Rightarrow> node" where
  "run_defers ds n = fold run_deferred ds n"

definition errAlreadySyncing :: go_error where
  "errAlreadySyncing = ''syncing is already in progress''"

definition errBeaconNil :: go_error where
  "errBeaconNil =
     ''beacon handler is nil, you might need to first --follow a chain and start aggregating beacons''"

record StartSyncRequest =
  Nodes :: "string list"
  UpTo :: u64
  ChainHash :: "8 word list"

subsection \<open>Check and correct (StartCheckChain)\<close>

text \<open>Which case the final \<^verbatim>\<open>select\<close> of the operation takes; it may wait for ever.\<close>

datatype wait = WaitDone | WaitCtxDone go_error | WaitForever

text \<open>
  The inputs of one call that come from outside this file: the node's own address
  as the field \<^verbatim>\<open>bp.priv.Public.Addr\<close> and as the method \<^verbatim>\<open>Address()\<close>, what
  \<^verbatim>\<open>ValidateChain\<close> and \<^verbatim>\<open>CorrectChain\<close> return, and the case the final select takes.
  The two collaborators get a progress callback; what they do with it is theirs and
  is not part of the trace. The error of the operation's own \<^verbatim>\<open>stream.Send\<close> is only
  logged, so it is not an input.
\<close>

record check_env =
  chk_Addr :: string
  chk_Address :: string
  chk_validate :: "u64 list \<times> go_error option"
  chk_correct :: "go_error option"
  chk_wait :: wait

definition StartCheckChain ::
  "check_env \<Rightarrow> StartSyncRequest \<Rightarrow> node \<Rightarrow> go_error option go_result \<times> node" where
  "StartCheckChain env req n =
    (if \<not> has_beacon n then (Returned (Some errBeaconNil), n)
     else
       let n1 = emit StateLock n in
       (case syncerCancel n1 of
          Some c \<Rightarrow> (Returned (Some errAlreadySyncing), emit StateUnlock n1)
        | None \<Rightarrow>
           (case with_cancel n1 of
              (ctx, n2) \<Rightarrow>
                let n3 = emit StateUnlock (store_syncerCancel (Some ctx) n2);
                    defers = [DReleaseGuard];
                    peers = filter (\<lambda>addr. addr \<noteq> chk_Address env) (Nodes req);
                    n4 = emit (ValidateChain (UpTo req)) n3
                in (case chk_validate env of
                      (faultyBeacons, Some err) \<Rightarrow> (Returned (Some err), run_defers defers n4)
                    | (faultyBeacons, None) \<Rightarrow>
                       let n5 = emit (StreamSend
                                  \<lparr>Current = 0, Target = of_nat (length faultyBeacons)\<rparr>) n4;
                           dryRun = (length (Nodes req) = 1 \<and> Nodes req ! 0 = chk_Addr env)
                       in if length faultyBeacons = 0 \<or> dryRun
                          then (Returned None, run_defers defers n5)
                          else
                            let n6 = emit SleepSecond n5;
                                n7 = emit (CorrectChain faultyBeacons peers) n6
                            in (case chk_correct env of
                                  Some err \<Rightarrow> (Returned (Some err), run_defers defers n7)
                                | None \<Rightarrow>
                                   (case chk_wait env of
                                      WaitDone \<Rightarrow> (Returned None, run_defers defers n7)
                                    | WaitCtxDone err \<Rightarrow>
                                        (Returned (Some err), run_defers defers n7)
                                    | WaitForever \<Rightarrow> (Blocked, n7)))))))"

subsection \<open>Follow (StartFollowChain)\<close>

text \<open>
  The chain info as the operation reads it: \<^verbatim>\<open>info.Hash()\<close>, \<^verbatim>\<open>info.ID\<close>,
  \<^verbatim>\<open>info.Period\<close>, \<^verbatim>\<open>info.GenesisSeed\<close> and \<^verbatim>\<open>info.GetSchemeName()\<close>.
\<close>

record Info =
  InfoHash :: "8 word list"
  InfoID :: string
  InfoPeriod :: i64
  InfoGenesisSeed :: "8 word list"
  InfoSchemeName :: string

text \<open>The verb \<^verbatim>\<open>%x\<close> on a byte slice: two lower-case hexadecimal digits a byte.\<close>

definition hex_digit :: "nat \<Rightarrow> char" where
  "hex_digit d = ''0123456789abcdef'' ! d"

definition fmt_x :: "8 word list \<Rightarrow> string" where
  "fmt_x bs = concat (map (\<lambda>b. [hex_digit (unat b div 16), hex_digit (unat b mod 16)]) bs)"

definition errHashMismatch :: "8 word list \<Rightarrow> 8 word list \<Rightarrow> go_error" where
  "errHashMismatch rcv hash =
     ''chain hash mismatch: rcv('' @ fmt_x rcv @ '') != bp('' @ fmt_x hash @ '')''"

definition errInvalidBeaconID :: go_error where
  "errInvalidBeaconID = ''invalid beacon id on chain info''"

definition errCreateStore :: "go_error \<Rightarrow> go_error" where
  "errCreateStore err = ''unable to create store: '' @ err"

definition errInsertGenesis :: "go_error \<Rightarrow> go_error" where
  "errInsertGenesis err = ''unable to insert genesis block: '' @ err"

text \<open>
  What happens while the operation waits in its \<^verbatim>\<open>select\<close>, one event at a time:
  the callback store calls the registered callback \<^verbatim>\<open>cb(b, closed)\<close> for a beacon
  of round \<open>r\<close> (with what \<^verbatim>\<open>stream.Send\<close> would return); the context \<^verbatim>\<open>ctx\<close> is
  cancelled (\<^verbatim>\<open>ctx.Err()\<close> is given); or \<^verbatim>\<open>syncer.Sync\<close> of the running goroutine
  returns, with or without an error, and the goroutine goes on to send what it
  returned on \<^verbatim>\<open>errChan\<close>.
\<close>

datatype sel_event =
    CbCall u64 bool "go_error option"
  | CtxDone go_error
  | SyncReturned "go_error option"

text \<open>
  The inputs of one call that come from outside this file. \<open>flw_LogsToSkip\<close> is the
  constant \<^verbatim>\<open>common.LogsToSkip\<close>, \<open>flw_CurrentRound\<close> is what \<^verbatim>\<open>common.CurrentRound\<close>
  returns in \<^verbatim>\<open>sendProgressCallback\<close>; an error field is what the call of that
  name returns.
\<close>

record 'c follow_env =
  flw_Address :: string
  flw_BeaconID :: string
  flw_CompareBeaconIDs :: "string \<Rightarrow> string \<Rightarrow> bool"
  flw_ChainInfo :: "string \<Rightarrow> go_error + 'c"
  flw_InfoFromProto :: "'c \<Rightarrow> Info option \<times> go_error option"
  flw_createDBStore :: "go_error option"
  flw_Put :: "go_error option"
  flw_SchemeFromName :: "go_error option"
  flw_NewSchemeStore :: "go_error option"
  flw_NewSyncManager :: "go_error option"
  flw_LogsToSkip :: u64
  flw_CurrentRound :: u64
  flw_events :: "sel_event list"

text \<open>\<^verbatim>\<open>sendProgressCallback\<close>: the target, and the callback handed to the store.\<close>

definition sendProgressCallback_targ :: "u64 \<Rightarrow> u64 \<Rightarrow> u64" where
  "sendProgressCallback_targ currentRound upTo =
     (if upTo \<noteq> 0 \<and> upTo < currentRound then upTo else currentRound)"

definition progressCb ::
  "u64 \<Rightarrow> u64 \<Rightarrow> u64 \<Rightarrow> go_error option \<Rightarrow> u64 \<Rightarrow> bool \<Rightarrow> cb_state \<Rightarrow> unit go_result \<times> cb_state" where
  "progressCb S upTo targ send_err round closed st =
     (if closed then (Returned (), st)
      else plainProgressCb S (upTo = 0) send_err round targ st)"

text \<open>
  The \<^verbatim>\<open>select\<close> of one iteration of the loop, whose sub-context is \<open>syncCtx\<close>. A
  case is taken as soon as it is ready. The case \<^verbatim>\<open><-done\<close> is ready once the
  callback has closed \<^verbatim>\<open>done\<close>. The case \<^verbatim>\<open><-errChan\<close> is ready when the goroutine
  sends on an open channel; on a \<^verbatim>\<open>nil\<close> channel the send blocks for ever and the
  case is never ready, so the select keeps waiting. Taking the case \<^verbatim>\<open><-errChan\<close>
  cancels the sub-context, sleeps for a period and starts the next iteration: a
  new sub-context and a new goroutine calling \<^verbatim>\<open>syncer.Sync\<close>. When no event is
  left, the operation is still waiting.
\<close>

fun follow_select ::
  "u64 \<Rightarrow> u64 \<Rightarrow> u64 \<Rightarrow> i64 \<Rightarrow> chan \<Rightarrow> nat \<Rightarrow> sel_event list \<Rightarrow> cb_state \<Rightarrow> node \<Rightarrow>
   go_error option go_result \<times> cb_state \<times> node" where
  "follow_select S upTo targ period errChan syncCtx [] cb n = (Blocked, cb, n)"
| "follow_select S upTo targ period errChan syncCtx (CbCall r closed send_err # evs) cb n =
    (case progressCb S upTo targ send_err r closed cb of
       (Returned u, cb') \<Rightarrow>
         if doneCh cb' = ChanClosed then (Returned None, cb', emit (Cancel syncCtx) n)
         else follow_select S upTo targ period errChan syncCtx evs cb' n
     | (Panicked m, cb') \<Rightarrow> (Panicked m, cb', n)
     | (Blocked, cb') \<Rightarrow> (Blocked, cb', n))"
| "follow_select S upTo targ period errChan syncCtx (CtxDone err # evs) cb n =
    (Returned (Some err), cb, emit (Cancel syncCtx) n)"
| "follow_select S upTo targ period errChan syncCtx (SyncReturned r # evs) cb n =
    (case errChan of
       ChanNil \<Rightarrow> follow_select S upTo targ period errChan syncCtx evs cb n
     | ChanOpen \<Rightarrow>
         (case with_cancel (emit (Sleep period) (emit (Cancel syncCtx) n)) of
            (syncCtx', n') \<Rightarrow>
              follow_select S upTo targ period errChan syncCtx' evs cb (emit (SyncCall syncCtx') n'))
     | ChanClosed \<Rightarrow> (Panicked ''send on closed channel'', cb, n))"

text \<open>The \<^verbatim>\<open>for\<close> loop, entered with the channel variable \<^verbatim>\<open>errChan\<close> as it is.\<close>

definition follow_loop ::
  "u64 \<Rightarrow> u64 \<Rightarrow> u64 \<Rightarrow> i64 \<Rightarrow> chan \<Rightarrow> sel_event list \<Rightarrow> cb_state \<Rightarrow> node \<Rightarrow>
   go_error option go_result \<times> cb_state \<times> node" where
  "follow_loop S upTo targ period errChan evs cb n =
    (case with_cancel n of
       (syncCtx, n') \<Rightarrow>
         follow_select S upTo targ period errChan syncCtx evs cb (emit (SyncCall syncCtx) n'))"

text \<open>
  The operation, in four parts that follow the source in order. A part gets the
  stack of deferred calls built so far; a \<^verbatim>\<open>return\<close> runs the stack. The result is
  what the operation returns, the state of the progress callback once it exists,
  and the node.
\<close>

definition follow_sync ::
  "'c follow_env \<Rightarrow> StartSyncRequest \<Rightarrow> Info \<Rightarrow> deferred list \<Rightarrow> node \<Rightarrow>
   go_error option go_result \<times> cb_state option \<times> node" where
  "follow_sync env req info defers n =
    (let cb = sendPlainProgressCallback;
         targ = sendProgressCallback_targ (flw_CurrentRound env) (UpTo req);
         n1 = emit AddCallback n;
         defers1 = DRemoveCallback # defers;
         n2 = emit NewSyncManager n1
     in (case flw_NewSyncManager env of
           Some err \<Rightarrow> (Returned (Some err), Some cb, run_defers defers1 n2)
         | None \<Rightarrow>
             let n3 = emit SyncerRun n2;
                 defers2 = DSyncerStop # defers1;
                 errChan = ChanNil
             in (case follow_loop (flw_LogsToSkip env) (UpTo req) targ (InfoPeriod info) errChan
                        (flw_events env) cb n3 of
                   (Returned r, cb', n') \<Rightarrow> (Returned r, Some cb', run_defers defers2 n')
                 | (Panicked m, cb', n') \<Rightarrow> (Panicked m, Some cb', n')
                 | (Blocked, cb', n') \<Rightarrow> (Blocked, Some cb', n'))))"

definition follow_store ::
  "'c follow_env \<Rightarrow> StartSyncRequest \<Rightarrow> Info \<Rightarrow> deferred list \<Rightarrow> node \<Rightarrow>
   go_error option go_result \<times> cb_state option \<times> node" where
  "follow_store env req info defers n =
    (let n1 = emit CreateDBStore n in
     (case flw_createDBStore env of
        Some err \<Rightarrow> (Returned (Some (errCreateStore err)), None, run_defers defers n1)
      | None \<Rightarrow>
          let n2 = emit StorePut n1 in
          (case flw_Put env of
             Some err \<Rightarrow>
               (Returned (Some (errInsertGenesis err)), None, run_defers defers (emit StoreClose n2))
           | None \<Rightarrow>
               let n3 = emit SchemeFromName n2 in
               (case flw_SchemeFromName env of
                  Some err \<Rightarrow> (Returned (Some err), None, run_defers defers n3)
                | None \<Rightarrow>
                    let n4 = emit NewSchemeStore n3 in
                    (case flw_NewSchemeStore env of
                       Some err \<Rightarrow> (Returned (Some err), None, run_defers defers n4)
                     | None \<Rightarrow>
                         follow_sync env req info (DCbStoreClose # defers)
                           (emit NewCallbackStore n4))))))"

definition follow_bootstrap ::
  "'c follow_env \<Rightarrow> StartSyncRequest \<Rightarrow> deferred list \<Rightarrow> node \<Rightarrow>
   go_error option go_result \<times> cb_state option \<times> node" where
  "follow_bootstrap env req defers n =
    (let peers = filter (\<lambda>addr. addr \<noteq> flw_Address env) (Nodes req) in
     (case chainInfoFromPeers (flw_ChainInfo env) (flw_InfoFromProto env) peers of
        (res, called) \<Rightarrow>
          let n1 = fold (\<lambda>peer. emit (ChainInfoCall peer)) called n in
          (case res of
             Inl err \<Rightarrow> (Returned (Some err), None, run_defers defers n1)
           | Inr info \<Rightarrow>
               if InfoHash info \<noteq> ChainHash req
               then (Returned (Some (errHashMismatch (InfoHash info) (ChainHash req))), None,
                     run_defers defers n1)
               else if \<not> flw_CompareBeaconIDs env (flw_BeaconID env) (InfoID info)
               then (Returned (Some errInvalidBeaconID), None, run_defers defers n1)
               else follow_store env req info defers n1)))"

definition StartFollowChain ::
  "'c follow_env \<Rightarrow> StartSyncRequest \<Rightarrow> node \<Rightarrow>
   go_error option go_result \<times> cb_state option \<times> node" where
  "StartFollowChain env req n =
    (let n1 = emit StateLock n in
     (case syncerCancel n1 of
        Some c \<Rightarrow> (Returned (Some errAlreadySyncing), None, emit StateUnlock n1)
      | None \<Rightarrow>
          (case with_cancel n1 of
             (ctx, n2) \<Rightarrow>
               follow_bootstrap env req [DReleaseGuard]
                 (emit StateUnlock (store_syncerCancel (Some ctx) n2)))))"

subsection \<open>Observations on traces, and sample inputs\<close>

text \<open>Recognisers for the effects that the statements below count.\<close>

fun is_CorrectChain :: "effect \<Rightarrow> bool" where
  "is_CorrectChain (CorrectChain f p) = True"
| "is_CorrectChain e = False"

fun is_SyncCall :: "effect \<Rightarrow> bool" where
  "is_SyncCall (SyncCall c) = True"
| "is_SyncCall e = False"

fun is_Sleep :: "effect \<Rightarrow> bool" where
  "is_Sleep (Sleep d) = True"
| "is_Sleep e = False"

text \<open>
  A node that follows a chain from one peer: the peer answers with a packet that
  parses to \<open>sample_info\<close>, every collaborator succeeds, and the events of the wait
  are given. The request names the node itself and the peer.
\<close>

definition sample_info :: Info where
  "sample_info =
     \<lparr>InfoHash = [0xab], InfoID = ''default'', InfoPeriod = 30, InfoGenesisSeed = [1],
      InfoSchemeName = ''pedersen-bls-chained''\<rparr>"

definition sample_follow_env :: "sel_event list \<Rightarrow> string follow_env" where
  "sample_follow_env evs =
     \<lparr>flw_Address = ''self'', flw_BeaconID = ''default'', flw_CompareBeaconIDs = (=),
      flw_ChainInfo = (\<lambda>peer. Inr peer), flw_InfoFromProto = (\<lambda>ci. (Some sample_info, None)),
      flw_createDBStore = None, flw_Put = None, flw_SchemeFromName = None,
      flw_NewSchemeStore = None, flw_NewSyncManager = None, flw_LogsToSkip = 300,
      flw_CurrentRound = 10, flw_events = evs\<rparr>"

definition sample_req :: StartSyncRequest where
  "sample_req = \<lparr>Nodes = [''self'', ''peer''], UpTo = 0, ChainHash = [0xab]\<rparr>"

definition idle_node :: node where
  "idle_node = \<lparr>has_beacon = True, syncerCancel = None, ctx_count = 0, trace = []\<rparr>"

definition busy_node :: "bool \<Rightarrow> node" where
  "busy_node b = \<lparr>has_beacon = b, syncerCancel = Some 0, ctx_count = 1, trace = []\<rparr>"

definition sample_check_env :: "u64 list \<Rightarrow> check_env" where
  "sample_check_env faulty =
     \<lparr>chk_Addr = ''self'', chk_Address = ''self'', chk_validate = (faulty, None),
      chk_correct = None, chk_wait = WaitDone\<rparr>"

definition sample_group :: "i64 \<Rightarrow> Group" where
  "sample_group period =
     \<lparr>GenesisTime = 100, Period = period, ID = ''default'', GenesisSeed = [1, 2],
      TransitionTime = 500\<rparr>"



definition caching_getter :: "Group \<Rightarrow> 8 word list \<times> Group" where
  "caching_getter g =
     (if GenesisSeed g = [] then ([7], g\<lparr>GenesisSeed := [7]\<rparr>) else (GenesisSeed g, g))"

section \<open>The progress callback\<close>

text \<open>
  What one call adds to the stream: nothing when the rate limit applies, and
  otherwise one message whose target is the clamped one. This holds whether the
  call returns or panics, since the send comes before the close.
\<close>

lemma plainProgressCb_sent:
  "sent (snd (plainProgressCb S kf se cur targ st)) =
     (if S < (if targ < cur then cur else targ) \<and>
         S < (if targ < cur then cur else targ) - cur \<and> cur mod S \<noteq> 0
      then sent st
      else sent st @ [\<lparr>Current = cur, Target = (if targ < cur then cur else targ)\<rparr>])"
  by (auto simp: plainProgressCb_def Let_def split: option.splits go_result.splits chan.splits)

text \<open>
  C5. A call \<open>(cur, targ)\<close> sends no message if and only if, with the target
  clamped to at least \<open>cur\<close>, the target is above \<open>S\<close>, the distance from \<open>cur\<close> to
  the target is above \<open>S\<close>, and \<open>cur\<close> is not a multiple of \<open>S\<close>; in every other case
  it sends exactly the message of \<open>cur\<close> and the clamped target. A call with
  \<open>cur\<close> equal to the target always sends.
\<close>

theorem progress_send_suppressed_iff:
  "((sent (snd (plainProgressCb S kf se cur targ st)) = sent st) =
      (S < (if targ < cur then cur else targ) \<and>
       S < (if targ < cur then cur else targ) - cur \<and> cur mod S \<noteq> 0))
   \<and> ((sent (snd (plainProgressCb S kf se cur targ st)) =
          sent st @ [\<lparr>Current = cur, Target = (if targ < cur then cur else targ)\<rparr>]) =
      (\<not> (S < (if targ < cur then cur else targ) \<and>
          S < (if targ < cur then cur else targ) - cur \<and> cur mod S \<noteq> 0)))
   \<and> sent (snd (plainProgressCb S kf se c c st)) = sent st @ [\<lparr>Current = c, Target = c\<rparr>]"
  by (simp add: plainProgressCb_sent)

lemma plainProgressCb_keeps_order:
  "list_all (\<lambda>m. Current m \<le> Target m) (sent st) \<Longrightarrow>
   list_all (\<lambda>m. Current m \<le> Target m) (sent (snd (plainProgressCb S kf se cur targ st)))"
  by (auto simp: plainProgressCb_sent)

lemma run_cb_keeps_order:
  "list_all (\<lambda>m. Current m \<le> Target m) (sent st) \<Longrightarrow>
   list_all (\<lambda>m. Current m \<le> Target m) (sent (snd (run_cb S kf calls st)))"
proof (induction calls arbitrary: st)
  case Nil
  then show ?case by simp
next
  case (Cons c calls)
  obtain e cur targ where c: "c = (e, cur, targ)" by (cases c)
  obtain r st' where step: "plainProgressCb S kf e cur targ st = (r, st')"
    by (cases "plainProgressCb S kf e cur targ st")
  have inv: "list_all (\<lambda>m. Current m \<le> Target m) (sent st')"
    using plainProgressCb_keeps_order [OF Cons.prems, of S kf e cur targ] step by simp
  show ?case
    using Cons.IH [OF inv] inv c step by (cases r) simp_all
qed

text \<open>
  C6. A call with \<open>cur\<close> above \<open>targ\<close> sends the message whose target is \<open>cur\<close>; and
  after any sequence of calls of a fresh callback, every message sent has a target
  that is at least its current round.
\<close>

theorem progress_target_never_below_current:
  "(targ < cur \<longrightarrow>
      sent (snd (plainProgressCb S kf se cur targ st)) =
        sent st @ [\<lparr>Current = cur, Target = cur\<rparr>])
   \<and> list_all (\<lambda>m. Current m \<le> Target m)
        (sent (snd (run_cb S kf calls sendPlainProgressCallback)))"
proof
  show "targ < cur \<longrightarrow>
      sent (snd (plainProgressCb S kf se cur targ st)) =
        sent st @ [\<lparr>Current = cur, Target = cur\<rparr>]"
    by (simp add: plainProgressCb_sent)
  show "list_all (\<lambda>m. Current m \<le> Target m)
        (sent (snd (run_cb S kf calls sendPlainProgressCallback)))"
    by (rule run_cb_keeps_order) (simp add: sendPlainProgressCallback_def)
qed

theorem progress_target_never_below_current_witness:
  "sent (snd (plainProgressCb 300 False None 7 3 sendPlainProgressCallback)) =
     [\<lparr>Current = 7, Target = 7\<rparr>]
   \<and> list_all (\<lambda>m. Current m \<le> Target m)
        (sent (snd (run_cb 300 True [(None, 7, 3), (None, 600, 1000), (None, 601, 1000)]
           sendPlainProgressCallback)))"
  using progress_target_never_below_current
    [where targ = 3 and cur = 7 and S = 300 and kf = False and se = None
       and st = sendPlainProgressCallback]
    progress_target_never_below_current
    [where S = 300 and kf = True and calls = "[(None, 7, 3), (None, 600, 1000), (None, 601, 1000)]"]
  by (simp add: sendPlainProgressCallback_def)

text \<open>
  The first call that reaches the target closes \<^verbatim>\<open>done\<close>; the closure keeps no
  record of it, so a later call that reaches the target closes again, which panics.
\<close>

lemma first_completion_closes:
  "0 < N \<Longrightarrow> doneCh st = ChanOpen \<Longrightarrow>
   fst (plainProgressCb S False se N N st) = Returned () \<and>
   doneCh (snd (plainProgressCb S False se N N st)) = ChanClosed"
  by (simp add: plainProgressCb_def Let_def split: option.splits)

lemma second_completion_panics:
  "0 < N \<Longrightarrow> doneCh st = ChanClosed \<Longrightarrow>
   fst (plainProgressCb S False se N N st) = Panicked ''close of closed channel''"
  by (simp add: plainProgressCb_def Let_def split: option.splits)

text \<open>
  C3. With \<open>keepFollowing\<close> false, the call \<open>(5, 5)\<close> on a fresh callback sends its
  message, closes \<^verbatim>\<open>done\<close> and returns. The same call made a second time sends its
  message and then panics on closing the closed channel: it is not a no-op.
\<close>

theorem progress_second_completion_panics:
  "run_cb 300 False [(None, 5, 5)] sendPlainProgressCallback =
     (Returned (),
      \<lparr>sent = [\<lparr>Current = 5, Target = 5\<rparr>], send_errs = [], doneCh = ChanClosed\<rparr>)
   \<and> run_cb 300 False [(None, 5, 5), (None, 5, 5)] sendPlainProgressCallback =
     (Panicked ''close of closed channel'',
      \<lparr>sent = [\<lparr>Current = 5, Target = 5\<rparr>, \<lparr>Current = 5, Target = 5\<rparr>], send_errs = [],
       doneCh = ChanClosed\<rparr>)"
  by (simp add: plainProgressCb_def sendPlainProgressCallback_def)

section \<open>The group-transition predicate\<close>



text \<open>
  The predicate reads the new group without testing it when the old group is set:
  with an old group and a \<^verbatim>\<open>nil\<close> new group the first comparison panics.
\<close>

lemma validateGroupTransition_nil_new:
  "validateGroupTransition C G now (Some po) None h = (Panicked nilDeref, h)"
  by (simp add: validateGroupTransition_def)


text \<open>
  The body of the predicate assigns to no field of a group. The one thing it does
  with a pointer to a group, besides reading fields, is to call \<open>GetGenesisSeed\<close>
  on it; a getter that stores the seed it computes changes the group, and the
  predicate then returns success with a changed heap.
\<close>

lemma validateGroupTransition_caching_getter:
  "fst (validateGroupTransition (=) caching_getter 400 (Some 0) (Some 0)
          (\<lambda>a. (sample_group 30)\<lparr>GenesisSeed := []\<rparr>)) = Returned None
   \<and> GenesisSeed (snd (validateGroupTransition (=) caching_getter 400 (Some 0) (Some 0)
          (\<lambda>a. (sample_group 30)\<lparr>GenesisSeed := []\<rparr>)) 0) = [7]"
  by (simp add: validateGroupTransition_def caching_getter_def sample_group_def Let_def
      word_sless_alt)



section \<open>Fetching the chain info\<close>

lemma chainInfoLoop_append:
  "chainInfoLoop C I (ps @ qs) s = chainInfoLoop C I qs (chainInfoLoop C I ps s)"
proof (induction ps arbitrary: s)
  case Nil
  show ?case by simp
next
  case (Cons p ps)
  obtain info err called where s: "s = (info, err, called)" by (cases s)
  show ?case unfolding s by (simp add: Cons.IH split: sum.splits prod.splits)
qed

lemma chainInfoLoop_called:
  "snd (snd (chainInfoLoop C I ps (info, err, called))) = called @ ps"
  by (induction ps arbitrary: info err called) (simp_all split: sum.splits prod.splits)

text \<open>Every peer is called, in the order of the list; the loop never stops early.\<close>

lemma chainInfoFromPeers_calls_all: "snd (chainInfoFromPeers C I ps) = ps"
proof -
  obtain i e c where r: "chainInfoLoop C I ps (None, None, []) = (i, e, c)"
    by (cases "chainInfoLoop C I ps (None, None, [])")
  have "c = ps" using chainInfoLoop_called [of C I ps None None "[]"] r by simp
  then show ?thesis using r by (cases i) (simp_all add: chainInfoFromPeers_def)
qed

text \<open>
  What decides the result is the last peer of the list. When its call fails, the
  result is what the peers before it left, with its error as the last one. When
  its call returns a packet, the result is what \<open>InfoFromProto\<close> returns for that
  packet, whatever the peers before it gave: the assignment writes \<^verbatim>\<open>info\<close> also
  when the parse fails.
\<close>

lemma chainInfoFromPeers_last_call_fails:
  assumes "C p = Inl e"
  shows "fst (chainInfoFromPeers C I (ps @ [p])) =
     (case fst (chainInfoLoop C I ps (None, None, [])) of
        None \<Rightarrow> Inl (errNoChainInfo (Some e))
      | Some i \<Rightarrow> Inr i)"
proof -
  obtain i e' c where r: "chainInfoLoop C I ps (None, None, []) = (i, e', c)"
    by (cases "chainInfoLoop C I ps (None, None, [])")
  show ?thesis
    using r assms by (cases i) (simp_all add: chainInfoFromPeers_def chainInfoLoop_append)
qed

lemma chainInfoFromPeers_last_call_returns:
  assumes "C p = Inr ci"
  shows "fst (chainInfoFromPeers C I (ps @ [p])) =
     (case I ci of
        (None, err) \<Rightarrow> Inl (errNoChainInfo err)
      | (Some i, err) \<Rightarrow> Inr i)"
proof -
  obtain i e' c where r: "chainInfoLoop C I ps (None, None, []) = (i, e', c)"
    by (cases "chainInfoLoop C I ps (None, None, [])")
  obtain i2 e2 where q: "I ci = (i2, e2)" by (cases "I ci")
  show ?thesis
    using r q assms by (cases i2) (simp_all add: chainInfoFromPeers_def chainInfoLoop_append)
qed

text \<open>
  C4. Two peers, both reachable: the packet of the first parses to the info \<open>1\<close>,
  the packet of the second does not parse (\<open>InfoFromProto\<close> returns \<^verbatim>\<open>nil\<close> and an
  error). Both peers are called, and the fetcher fails with the error of the
  second peer, although the first peer gave a parsed response.
\<close>

theorem chainInfoFromPeers_parse_failure_discards_earlier:
  "chainInfoFromPeers (\<lambda>peer. Inr peer)
      (\<lambda>ci. if ci = ''a'' then (Some (1::nat), None) else (None, Some ''bad packet''))
      [''a'', ''b'']
   = (Inl ''unable to get chain info successfully. Last err: bad packet'', [''a'', ''b''])"
  by (simp add: chainInfoFromPeers_def errNoChainInfo_def)

section \<open>The sync guard\<close>

lemma release_guard_cleared:
  "syncerCancel m = None \<Longrightarrow>
     release_guard m = m\<lparr>trace := trace m @ [StateLock, StoreSyncerCancel None, StateUnlock]\<rparr>"
  by (simp add: release_guard_def emit_def store_syncerCancel_def)

lemma release_guard_stored:
  "syncerCancel m = Some c \<Longrightarrow>
     release_guard m = m\<lparr>syncerCancel := None,
        trace := trace m @ [StateLock, Cancel c, StoreSyncerCancel None, StateUnlock]\<rparr>"
  by (simp add: release_guard_def emit_def store_syncerCancel_def)

lemma release_guard_clears: "syncerCancel (release_guard m) = None"
  by (cases "syncerCancel m") (simp_all add: release_guard_cleared release_guard_stored)

text \<open>
  C10. On a node without a beacon instance the check operation returns the
  not-bootstrapped error whatever the cancellation handle is, and leaves the node
  as it was: the handle is kept, and the trace gains nothing, so the lock is not
  taken and no context is made.
\<close>

theorem check_not_bootstrapped_before_guard:
  "StartCheckChain env req (n\<lparr>has_beacon := False, syncerCancel := sc\<rparr>) =
     (Returned (Some errBeaconNil), n\<lparr>has_beacon := False, syncerCancel := sc\<rparr>)"
  by (simp add: StartCheckChain_def)

text \<open>
  C2, as the operations have it. On a node that holds a handle, the check
  operation answers the busy error only when the node has a beacon instance; the
  node below has none and gets the not-bootstrapped error.
\<close>

theorem guard_busy_check_without_beacon:
  "fst (StartCheckChain (sample_check_env []) sample_req (busy_node False))
     \<noteq> Returned (Some errAlreadySyncing)"
  by (simp add: StartCheckChain_def busy_node_def errBeaconNil_def errAlreadySyncing_def)

text \<open>
  C2, amended. On a node that holds a handle \<open>c\<close>: the follow operation, and the
  check operation when the node has a beacon instance, return the error
  \<^verbatim>\<open>syncing is already in progress\<close>; the node is as before but for the lock taken
  and released (the handle is kept, no context is made or cancelled). When the
  node has no beacon instance the check operation returns the not-bootstrapped
  error and the node is as before. The release calls the stored handle and then
  clears it, inside the lock; a release that finds the handle cleared calls
  nothing and stores \<^verbatim>\<open>nil\<close> again.
\<close>

theorem guard_busy_rejects:
  assumes "syncerCancel n = Some c"
  shows "StartFollowChain env req n =
           (Returned (Some errAlreadySyncing), None,
            n\<lparr>trace := trace n @ [StateLock, StateUnlock]\<rparr>)
     \<and> (has_beacon n \<longrightarrow> StartCheckChain cenv req n =
           (Returned (Some errAlreadySyncing), n\<lparr>trace := trace n @ [StateLock, StateUnlock]\<rparr>))
     \<and> (\<not> has_beacon n \<longrightarrow> StartCheckChain cenv req n = (Returned (Some errBeaconNil), n))
     \<and> release_guard n = n\<lparr>syncerCancel := None,
          trace := trace n @ [StateLock, Cancel c, StoreSyncerCancel None, StateUnlock]\<rparr>
     \<and> release_guard (release_guard n) = (release_guard n)
          \<lparr>trace := trace (release_guard n) @ [StateLock, StoreSyncerCancel None, StateUnlock]\<rparr>"
proof -
  have f: "StartFollowChain env req n =
           (Returned (Some errAlreadySyncing), None,
            n\<lparr>trace := trace n @ [StateLock, StateUnlock]\<rparr>)"
    using assms by (simp add: StartFollowChain_def emit_def)
  have c1: "has_beacon n \<longrightarrow> StartCheckChain cenv req n =
           (Returned (Some errAlreadySyncing), n\<lparr>trace := trace n @ [StateLock, StateUnlock]\<rparr>)"
    using assms by (simp add: StartCheckChain_def emit_def)
  have c2: "\<not> has_beacon n \<longrightarrow> StartCheckChain cenv req n = (Returned (Some errBeaconNil), n)"
    by (simp add: StartCheckChain_def)
  have r1: "release_guard n = n\<lparr>syncerCancel := None,
          trace := trace n @ [StateLock, Cancel c, StoreSyncerCancel None, StateUnlock]\<rparr>"
    using assms by (rule release_guard_stored)
  have r2: "release_guard (release_guard n) = (release_guard n)
          \<lparr>trace := trace (release_guard n) @ [StateLock, StoreSyncerCancel None, StateUnlock]\<rparr>"
    by (rule release_guard_cleared) (rule release_guard_clears)
  show ?thesis using f c1 c2 r1 r2 by blast
qed

theorem guard_busy_rejects_witness:
  "StartFollowChain (sample_follow_env []) sample_req (busy_node True) =
     (Returned (Some errAlreadySyncing), None,
      \<lparr>has_beacon = True, syncerCancel = Some 0, ctx_count = 1,
       trace = [StateLock, StateUnlock]\<rparr>)
   \<and> StartCheckChain (sample_check_env [3]) sample_req (busy_node True) =
     (Returned (Some errAlreadySyncing),
      \<lparr>has_beacon = True, syncerCancel = Some 0, ctx_count = 1,
       trace = [StateLock, StateUnlock]\<rparr>)
   \<and> StartCheckChain (sample_check_env [3]) sample_req (busy_node False) =
     (Returned (Some errBeaconNil),
      \<lparr>has_beacon = False, syncerCancel = Some 0, ctx_count = 1, trace = []\<rparr>)
   \<and> release_guard (busy_node True) =
     \<lparr>has_beacon = True, syncerCancel = None, ctx_count = 1,
      trace = [StateLock, Cancel 0, StoreSyncerCancel None, StateUnlock]\<rparr>
   \<and> release_guard (release_guard (busy_node True)) =
     \<lparr>has_beacon = True, syncerCancel = None, ctx_count = 1,
      trace = [StateLock, Cancel 0, StoreSyncerCancel None, StateUnlock,
               StateLock, StoreSyncerCancel None, StateUnlock]\<rparr>"
proof -
  have t: "syncerCancel (busy_node True) = Some 0" by (simp add: busy_node_def)
  have f: "syncerCancel (busy_node False) = Some 0" by (simp add: busy_node_def)
  show ?thesis
    using guard_busy_rejects [OF t, of "sample_follow_env []" sample_req "sample_check_env [3]"]
      guard_busy_rejects [OF f, of "sample_follow_env []" sample_req "sample_check_env [3]"]
    by (simp add: busy_node_def release_guard_def emit_def store_syncerCancel_def)
qed

section \<open>Check and correct\<close>

text \<open>
  C8, as the operation has it. The request names exactly the node's own address,
  the node is idle and has a beacon instance, and the validation fails: the
  operation returns the error of the validation, not success.
\<close>

theorem check_dry_run_validation_error:
  "StartCheckChain ((sample_check_env [])\<lparr>chk_validate := ([], Some ''validation failed'')\<rparr>)
      (sample_req\<lparr>Nodes := [''self'']\<rparr>) idle_node =
     (Returned (Some ''validation failed''),
      \<lparr>has_beacon = True, syncerCancel = None, ctx_count = 1,
       trace = [StateLock, WithCancel 0, StoreSyncerCancel (Some 0), StateUnlock,
                ValidateChain 0, StateLock, Cancel 0, StoreSyncerCancel None, StateUnlock]\<rparr>)"
  by (simp add: StartCheckChain_def sample_check_env_def sample_req_def idle_node_def emit_def
      with_cancel_def store_syncerCancel_def run_defers_def release_guard_def)

text \<open>
  C8, amended. When the validation returns no faulty beacon, or the request names
  exactly one node and it is the node's own address, the operation adds no call
  of the corrector to the trace, on any path, and it returns: with the
  not-bootstrapped error on a node without a beacon instance, else with the busy
  error on a node that holds a handle, else with what the validation returned as
  its error, which is success when the validation returned none. In that last
  case what the operation does is exactly: acquire the guard, validate, send the
  message that resets the target, release the guard. No sleep, no peer.
\<close>

theorem check_dry_run_skips_correction:
  assumes dry: "fst (chk_validate env) = [] \<or> Nodes req = [chk_Addr env]"
  shows "filter is_CorrectChain (trace (snd (StartCheckChain env req n))) =
           filter is_CorrectChain (trace n)
     \<and> fst (StartCheckChain env req n) =
         Returned (if \<not> has_beacon n then Some errBeaconNil
                   else if syncerCancel n \<noteq> None then Some errAlreadySyncing
                   else snd (chk_validate env))
     \<and> (has_beacon n \<and> syncerCancel n = None \<and> snd (chk_validate env) = None \<longrightarrow>
          StartCheckChain env req n =
            (Returned None,
             n\<lparr>ctx_count := Suc (ctx_count n),
               trace := trace n @
                 [StateLock, WithCancel (ctx_count n), StoreSyncerCancel (Some (ctx_count n)),
                  StateUnlock, ValidateChain (UpTo req),
                  StreamSend \<lparr>Current = 0, Target = of_nat (length (fst (chk_validate env)))\<rparr>,
                  StateLock, Cancel (ctx_count n), StoreSyncerCancel None, StateUnlock]\<rparr>))"
proof -
  obtain faulty verr where v: "chk_validate env = (faulty, verr)"
    by (cases "chk_validate env")
  have d: "length faulty = 0 \<or> (length (Nodes req) = 1 \<and> Nodes req ! 0 = chk_Addr env)"
    using dry v by auto
  have a: "filter is_CorrectChain (trace (snd (StartCheckChain env req n))) =
           filter is_CorrectChain (trace n)"
    using d v
    by (cases verr; cases "syncerCancel n")
       (simp_all add: StartCheckChain_def Let_def emit_def with_cancel_def store_syncerCancel_def
        run_defers_def release_guard_def)
  have r: "fst (StartCheckChain env req n) =
         Returned (if \<not> has_beacon n then Some errBeaconNil
                   else if syncerCancel n \<noteq> None then Some errAlreadySyncing
                   else snd (chk_validate env))"
    using d v
    by (cases verr; cases "syncerCancel n")
       (simp_all add: StartCheckChain_def Let_def emit_def with_cancel_def store_syncerCancel_def
        run_defers_def release_guard_def)
  have b: "has_beacon n \<and> syncerCancel n = None \<and> snd (chk_validate env) = None \<longrightarrow>
          StartCheckChain env req n =
            (Returned None,
             n\<lparr>ctx_count := Suc (ctx_count n),
               trace := trace n @
                 [StateLock, WithCancel (ctx_count n), StoreSyncerCancel (Some (ctx_count n)),
                  StateUnlock, ValidateChain (UpTo req),
                  StreamSend \<lparr>Current = 0, Target = of_nat (length (fst (chk_validate env)))\<rparr>,
                  StateLock, Cancel (ctx_count n), StoreSyncerCancel None, StateUnlock]\<rparr>)"
    using d v
    by (simp add: StartCheckChain_def Let_def emit_def with_cancel_def store_syncerCancel_def
        run_defers_def release_guard_def)
  show ?thesis using a r b by blast
qed

theorem check_dry_run_skips_correction_witness:
  "StartCheckChain (sample_check_env []) sample_req idle_node =
     (Returned None,
      \<lparr>has_beacon = True, syncerCancel = None, ctx_count = 1,
       trace = [StateLock, WithCancel 0, StoreSyncerCancel (Some 0), StateUnlock,
                ValidateChain 0, StreamSend \<lparr>Current = 0, Target = 0\<rparr>,
                StateLock, Cancel 0, StoreSyncerCancel None, StateUnlock]\<rparr>)
   \<and> StartCheckChain (sample_check_env [3, 7]) (sample_req\<lparr>Nodes := [''self'']\<rparr>) idle_node =
     (Returned None,
      \<lparr>has_beacon = True, syncerCancel = None, ctx_count = 1,
       trace = [StateLock, WithCancel 0, StoreSyncerCancel (Some 0), StateUnlock,
                ValidateChain 0, StreamSend \<lparr>Current = 0, Target = 2\<rparr>,
                StateLock, Cancel 0, StoreSyncerCancel None, StateUnlock]\<rparr>)
   \<and> fst (StartCheckChain (sample_check_env [3, 7]) (sample_req\<lparr>Nodes := [''self'']\<rparr>)
          (busy_node True)) = Returned (Some errAlreadySyncing)"
proof -
  have d1: "fst (chk_validate (sample_check_env [])) = [] \<or>
            Nodes sample_req = [chk_Addr (sample_check_env [])]"
    by (simp add: sample_check_env_def)
  have d2: "fst (chk_validate (sample_check_env [3, 7])) = [] \<or>
            Nodes (sample_req\<lparr>Nodes := [''self'']\<rparr>) = [chk_Addr (sample_check_env [3, 7])]"
    by (simp add: sample_check_env_def)
  show ?thesis
    using check_dry_run_skips_correction [OF d1, of idle_node]
      check_dry_run_skips_correction [OF d2, of idle_node]
      check_dry_run_skips_correction [OF d2, of "busy_node True"]
    by (simp add: sample_check_env_def sample_req_def idle_node_def busy_node_def)
qed

text \<open>With a faulty beacon and a peer that is not the node, the corrector is called.\<close>

lemma check_corrects_otherwise:
  "StartCheckChain (sample_check_env [3, 7]) sample_req idle_node =
     (Returned None,
      \<lparr>has_beacon = True, syncerCancel = None, ctx_count = 1,
       trace = [StateLock, WithCancel 0, StoreSyncerCancel (Some 0), StateUnlock,
                ValidateChain 0, StreamSend \<lparr>Current = 0, Target = 2\<rparr>, SleepSecond,
                CorrectChain [3, 7] [''peer''],
                StateLock, Cancel 0, StoreSyncerCancel None, StateUnlock]\<rparr>)"
  by (simp add: StartCheckChain_def sample_check_env_def sample_req_def idle_node_def emit_def
      with_cancel_def store_syncerCancel_def run_defers_def release_guard_def)

section \<open>Follow: the retry loop\<close>

lemmas follow_unfold = StartFollowChain_def follow_bootstrap_def follow_store_def follow_sync_def
  follow_loop_def sample_follow_env_def sample_req_def idle_node_def sample_info_def
  chainInfoFromPeers_def emit_def with_cancel_def store_syncerCancel_def run_defers_def
  release_guard_def sendPlainProgressCallback_def sendProgressCallback_targ_def

text \<open>
  With the channel \<^verbatim>\<open>errChan\<close> never made, a select adds neither a call of
  \<^verbatim>\<open>syncer.Sync\<close> nor a sleep to the trace, whatever the events are: the case that
  retries is never taken.
\<close>

lemma follow_select_nil_never_retries:
  "filter (\<lambda>e. is_SyncCall e \<or> is_Sleep e)
     (trace (snd (snd (follow_select S upTo targ period ChanNil syncCtx evs cb n)))) =
   filter (\<lambda>e. is_SyncCall e \<or> is_Sleep e) (trace n)"
proof (induction evs arbitrary: cb n)
  case Nil
  show ?case by simp
next
  case (Cons ev evs)
  show ?case
  proof (cases ev)
    case (CbCall r closed se)
    obtain res cb' where p: "progressCb S upTo targ se r closed cb = (res, cb')"
      by (cases "progressCb S upTo targ se r closed cb")
    show ?thesis using CbCall p Cons.IH by (cases res) (simp_all add: emit_def)
  next
    case (CtxDone err)
    then show ?thesis by (simp add: emit_def)
  next
    case (SyncReturned r)
    then show ?thesis using Cons.IH by simp
  qed
qed

text \<open>So the loop of the operation calls \<^verbatim>\<open>syncer.Sync\<close> once and never sleeps.\<close>

lemma follow_loop_nil_single_sync:
  "filter is_SyncCall (trace (snd (snd (follow_loop S upTo targ period ChanNil evs cb n)))) =
     filter is_SyncCall (trace n) @ [SyncCall (ctx_count n)]
   \<and> filter is_Sleep (trace (snd (snd (follow_loop S upTo targ period ChanNil evs cb n)))) =
     filter is_Sleep (trace n)"
proof -
  let ?n1 = "emit (SyncCall (ctx_count n)) (snd (with_cancel n))"
  let ?r = "follow_select S upTo targ period ChanNil (ctx_count n) evs cb ?n1"
  have l: "follow_loop S upTo targ period ChanNil evs cb n = ?r"
    by (simp add: follow_loop_def with_cancel_def)
  have f: "filter (\<lambda>e. is_SyncCall e \<or> is_Sleep e) (trace (snd (snd ?r))) =
           filter (\<lambda>e. is_SyncCall e \<or> is_Sleep e) (trace ?n1)"
    by (rule follow_select_nil_never_retries)
  have "filter is_SyncCall (filter (\<lambda>e. is_SyncCall e \<or> is_Sleep e) (trace (snd (snd ?r)))) =
        filter is_SyncCall (filter (\<lambda>e. is_SyncCall e \<or> is_Sleep e) (trace ?n1))"
    using f by simp
  then have a: "filter is_SyncCall (trace (snd (snd ?r))) = filter is_SyncCall (trace ?n1)"
    by (simp add: conj_commute cong: conj_cong)
  have "filter is_Sleep (filter (\<lambda>e. is_SyncCall e \<or> is_Sleep e) (trace (snd (snd ?r)))) =
        filter is_Sleep (filter (\<lambda>e. is_SyncCall e \<or> is_Sleep e) (trace ?n1))"
    using f by simp
  then have b: "filter is_Sleep (trace (snd (snd ?r))) = filter is_Sleep (trace ?n1)"
    by (simp add: conj_commute cong: conj_cong)
  show ?thesis using a b l by (simp add: emit_def with_cancel_def)
qed

text \<open>
  The same loop entered with a channel that has been made does what the retry
  policy asks: after \<open>length rs\<close> returns of \<^verbatim>\<open>syncer.Sync\<close> and then the callback
  reaching the target (in the bounded mode), it has called \<^verbatim>\<open>syncer.Sync\<close> one time
  more than it has failed, slept once a failure, and returns success.
\<close>

lemma target_reached_closes:
  assumes "upTo \<noteq> 0" "0 < targ" "doneCh cb = ChanOpen"
  shows "fst (progressCb S upTo targ se targ False cb) = Returned ()
       \<and> doneCh (snd (progressCb S upTo targ se targ False cb)) = ChanClosed"
  using assms by (simp add: progressCb_def plainProgressCb_def Let_def split: option.splits)

lemma follow_select_open_retries:
  assumes "upTo \<noteq> 0" "0 < targ" "doneCh cb = ChanOpen"
  shows "fst (follow_select S upTo targ period ChanOpen syncCtx
               (map SyncReturned rs @ [CbCall targ False se]) cb n) = Returned None
     \<and> length (filter is_SyncCall (trace (snd (snd (follow_select S upTo targ period ChanOpen
               syncCtx (map SyncReturned rs @ [CbCall targ False se]) cb n))))) =
         length (filter is_SyncCall (trace n)) + length rs
     \<and> length (filter is_Sleep (trace (snd (snd (follow_select S upTo targ period ChanOpen
               syncCtx (map SyncReturned rs @ [CbCall targ False se]) cb n))))) =
         length (filter is_Sleep (trace n)) + length rs"
proof (induction rs arbitrary: syncCtx n)
  case Nil
  obtain res cb' where p: "progressCb S upTo targ se targ False cb = (res, cb')"
    by (cases "progressCb S upTo targ se targ False cb")
  have "res = Returned ()" "doneCh cb' = ChanClosed"
    using target_reached_closes [OF assms, of S se] p by simp_all
  then show ?case using p by (simp add: emit_def)
next
  case (Cons r rs)
  let ?n' = "emit (SyncCall (ctx_count n))
               (snd (with_cancel (emit (Sleep period) (emit (Cancel syncCtx) n))))"
  have step: "follow_select S upTo targ period ChanOpen syncCtx
               (map SyncReturned (r # rs) @ [CbCall targ False se]) cb n =
             follow_select S upTo targ period ChanOpen (ctx_count n)
               (map SyncReturned rs @ [CbCall targ False se]) cb ?n'"
    by (simp add: with_cancel_def emit_def)
  have tr: "trace ?n' =
      trace n @ [Cancel syncCtx, Sleep period, WithCancel (ctx_count n), SyncCall (ctx_count n)]"
    by (simp add: with_cancel_def emit_def)
  show ?case unfolding step using Cons.IH [of "ctx_count n" ?n'] by (simp add: tr)
qed

lemma follow_loop_open_retries:
  assumes "upTo \<noteq> 0" "0 < targ" "doneCh cb = ChanOpen"
  shows "fst (follow_loop S upTo targ period ChanOpen
               (map SyncReturned rs @ [CbCall targ False se]) cb n) = Returned None
     \<and> length (filter is_SyncCall (trace (snd (snd (follow_loop S upTo targ period ChanOpen
               (map SyncReturned rs @ [CbCall targ False se]) cb n))))) =
         length (filter is_SyncCall (trace n)) + length rs + 1
     \<and> length (filter is_Sleep (trace (snd (snd (follow_loop S upTo targ period ChanOpen
               (map SyncReturned rs @ [CbCall targ False se]) cb n))))) =
         length (filter is_Sleep (trace n)) + length rs"
proof -
  let ?n1 = "emit (SyncCall (ctx_count n)) (snd (with_cancel n))"
  have l: "follow_loop S upTo targ period ChanOpen (map SyncReturned rs @ [CbCall targ False se]) cb n
        = follow_select S upTo targ period ChanOpen (ctx_count n)
            (map SyncReturned rs @ [CbCall targ False se]) cb ?n1"
    by (simp add: follow_loop_def with_cancel_def)
  have tr: "trace ?n1 = trace n @ [WithCancel (ctx_count n), SyncCall (ctx_count n)]"
    by (simp add: with_cancel_def emit_def)
  show ?thesis unfolding l
    using follow_select_open_retries [OF assms, of S period "ctx_count n" rs se ?n1]
    by (simp add: tr)
qed

text \<open>
  C1. A follow session on an idle node, bootstrapped from one peer. The sync engine
  returns an error, and later the caller cancels. The operation calls
  \<^verbatim>\<open>syncer.Sync\<close> once (context 1), never sleeps and never calls it again: the
  error is not received, because the goroutine sends it on a channel that was
  never made. The operation returns only on the cancellation.
\<close>

theorem follow_sync_error_not_retried:
  "StartFollowChain
      (sample_follow_env [SyncReturned (Some ''sync failed''), CtxDone ''context canceled''])
      sample_req idle_node =
   (Returned (Some ''context canceled''),
    Some \<lparr>sent = [], send_errs = [], doneCh = ChanOpen\<rparr>,
    \<lparr>has_beacon = True, syncerCancel = None, ctx_count = 2,
     trace =
       [StateLock, WithCancel 0, StoreSyncerCancel (Some 0), StateUnlock,
        ChainInfoCall ''peer'', CreateDBStore, StorePut, SchemeFromName,
        NewSchemeStore, NewCallbackStore, AddCallback, NewSyncManager,
        SyncerRun, WithCancel 1, SyncCall 1, Cancel 1, SyncerStop,
        RemoveCallback, CbStoreClose, StateLock, Cancel 0,
        StoreSyncerCancel None, StateUnlock]\<rparr>)"
  by (simp add: follow_unfold)

section \<open>Follow: what an exit releases\<close>

lemma syncerCancel_emit [simp]: "syncerCancel (emit e n) = syncerCancel n"
  by (simp add: emit_def)

lemma run_defers_releases:
  "DReleaseGuard \<in> set ds \<Longrightarrow> syncerCancel (run_defers ds n) = None"
proof (induction ds arbitrary: n rule: rev_induct)
  case Nil
  then show ?case by simp
next
  case (snoc d ds)
  show ?case
  proof (cases d)
    case DReleaseGuard
    then show ?thesis by (simp add: run_defers_def release_guard_clears)
  next
    case DCbStoreClose
    then show ?thesis using snoc by (simp add: run_defers_def)
  next
    case DRemoveCallback
    then show ?thesis using snoc by (simp add: run_defers_def)
  next
    case DSyncerStop
    then show ?thesis using snoc by (simp add: run_defers_def)
  qed
qed

lemma follow_sync_releases:
  assumes "DReleaseGuard \<in> set ds" "fst (follow_sync env req info ds n) = Returned r"
  shows "syncerCancel (snd (snd (follow_sync env req info ds n))) = None"
proof (cases "flw_NewSyncManager env")
  case (Some e)
  then show ?thesis using assms(1) by (simp add: follow_sync_def Let_def run_defers_releases)
next
  case None
  let ?l = "follow_loop (flw_LogsToSkip env) (UpTo req)
              (sendProgressCallback_targ (flw_CurrentRound env) (UpTo req)) (InfoPeriod info) ChanNil
              (flw_events env) sendPlainProgressCallback
              (emit SyncerRun (emit NewSyncManager (emit AddCallback n)))"
  obtain res cb' n' where l: "?l = (res, cb', n')" by (cases ?l)
  show ?thesis using None l assms
    by (cases res) (simp_all add: follow_sync_def Let_def run_defers_releases)
qed

lemma follow_store_releases:
  assumes "DReleaseGuard \<in> set ds" "fst (follow_store env req info ds n) = Returned r"
  shows "syncerCancel (snd (snd (follow_store env req info ds n))) = None"
  using assms follow_sync_releases [of "DCbStoreClose # ds" env req info _ r]
  by (auto simp: follow_store_def Let_def run_defers_releases split: option.splits)

lemma follow_bootstrap_releases:
  assumes "DReleaseGuard \<in> set ds" "fst (follow_bootstrap env req ds n) = Returned r"
  shows "syncerCancel (snd (snd (follow_bootstrap env req ds n))) = None"
  using assms follow_store_releases [of ds env req _ _ r]
  by (auto simp: follow_bootstrap_def Let_def run_defers_releases
      split: prod.splits sum.splits if_splits)

text \<open>The guard: whenever the operation returns on an idle node, the handle is cleared.\<close>

lemma follow_releases_guard:
  assumes "syncerCancel n = None" "fst (StartFollowChain env req n) = Returned r"
  shows "syncerCancel (snd (snd (StartFollowChain env req n))) = None"
  using assms follow_bootstrap_releases [of "[DReleaseGuard]" env req _ r]
  by (auto simp: StartFollowChain_def Let_def split: prod.splits)

text \<open>
  The store: the exit on a failed insertion of the genesis beacon closes it. The
  two exits that follow (a scheme that is not found, a scheme store that cannot be
  made) return before the callback store exists and close nothing.
\<close>

lemma follow_put_error_closes_store:
  "StartFollowChain ((sample_follow_env [])\<lparr>flw_Put := Some ''put error''\<rparr>)
      sample_req idle_node =
   (Returned (Some ''unable to insert genesis block: put error''), None,
    \<lparr>has_beacon = True, syncerCancel = None, ctx_count = 1,
     trace =
       [StateLock, WithCancel 0, StoreSyncerCancel (Some 0), StateUnlock,
        ChainInfoCall ''peer'', CreateDBStore, StorePut, StoreClose,
        StateLock, Cancel 0, StoreSyncerCancel None, StateUnlock]\<rparr>)"
  by (simp add: follow_unfold errInsertGenesis_def)

lemma follow_store_scheme_error_leaves_store_open:
  assumes "flw_createDBStore env = None" "flw_Put env = None"
    "flw_SchemeFromName env = Some e \<or>
     (flw_SchemeFromName env = None \<and> flw_NewSchemeStore env = Some e)"
  shows "fst (follow_store env req info [DReleaseGuard] n) = Returned (Some e)
    \<and> (\<exists>xs. trace (snd (snd (follow_store env req info [DReleaseGuard] n))) =
          trace n @ CreateDBStore # StorePut # xs \<and>
          StoreClose \<notin> set xs \<and> CbStoreClose \<notin> set xs)"
  using assms
  by (auto simp: follow_store_def Let_def emit_def run_defers_def release_guard_def
      store_syncerCancel_def split: option.splits)

text \<open>
  C9. A follow session on an idle node in which the store is created and the
  genesis beacon inserted, and making the scheme store then fails. The operation
  returns that error and releases the guard, but the trace after \<open>CreateDBStore\<close>
  holds no \<open>StoreClose\<close> and no \<open>CbStoreClose\<close>: the store stays open.
\<close>

theorem follow_scheme_store_error_leaks_store:
  "StartFollowChain ((sample_follow_env [])\<lparr>flw_NewSchemeStore := Some ''store error''\<rparr>)
      sample_req idle_node =
   (Returned (Some ''store error''), None,
    \<lparr>has_beacon = True, syncerCancel = None, ctx_count = 1,
     trace =
       [StateLock, WithCancel 0, StoreSyncerCancel (Some 0), StateUnlock,
        ChainInfoCall ''peer'', CreateDBStore, StorePut, SchemeFromName,
        NewSchemeStore, StateLock, Cancel 0, StoreSyncerCancel None,
        StateUnlock]\<rparr>)"
  by (simp add: follow_unfold)

end
